theory Spec2Isabelle
  imports Main "HOL-Library.Sublist" "HOL-Library.Multiset"
begin

section \<open>FlowBoard: data model\<close>

text \<open>
  The rows of the service layer (\<^verbatim>\<open>services/projectService\<close>). A union of string
  literals is a datatype together with the text the source writes for each value; a
  nullable column (\<^verbatim>\<open>string | null\<close>) is an option. The field names are the source's,
  prefixed with the entity, since several entities share \<^verbatim>\<open>id\<close>, \<^verbatim>\<open>created_at\<close> and
  others.

  \<^verbatim>\<open>created_at\<close> and \<^verbatim>\<open>updated_at\<close> reach the client as the text of a backend
  timestamp. The functions modelled here never read them; only the backend orders
  rows by them. They are modelled as the instant that the text denotes.
\<close>

type_synonym timestamp = nat

datatype task_status = Todo | InProgress | Review | Completed

datatype task_priority = Low | Medium | High

fun status_text :: "task_status \<Rightarrow> string" where
  "status_text Todo = ''todo''"
| "status_text InProgress = ''in-progress''"
| "status_text Review = ''review''"
| "status_text Completed = ''completed''"

fun priority_text :: "task_priority \<Rightarrow> string" where
  "priority_text Low = ''low''"
| "priority_text Medium = ''medium''"
| "priority_text High = ''high''"

record project =
  project_id :: string
  project_name :: string
  project_description :: "string option"
  project_user_id :: string
  project_created_at :: timestamp
  project_updated_at :: timestamp

record task =
  task_id :: string
  task_title :: string
  task_description :: "string option"
  task_status :: task_status
  task_priority :: task_priority
  task_due_date :: "string option"
  task_project_id :: string
  task_user_id :: string
  task_created_at :: timestamp
  task_updated_at :: timestamp

section \<open>The Kanban board (\<^verbatim>\<open>components/KanbanBoard.tsx\<close>)\<close>

subsection \<open>Strings\<close>

text \<open>
  \<^verbatim>\<open>String.prototype.toLowerCase\<close> on the letters A to Z (a \<^typ>\<open>char\<close> is a byte, so
  case mapping beyond ASCII is outside the model), and \<^verbatim>\<open>String.prototype.includes\<close>:
  \<open>str_includes s sub\<close> holds when \<open>sub\<close> occurs in \<open>s\<close> as a contiguous piece.
\<close>

definition lower_char :: "char \<Rightarrow> char" where
  "lower_char c =
     (if 65 \<le> (of_char c :: nat) \<and> (of_char c :: nat) \<le> 90
      then char_of ((of_char c :: nat) + 32) else c)"

definition toLowerCase :: "string \<Rightarrow> string" where
  "toLowerCase s = map lower_char s"

fun str_includes :: "string \<Rightarrow> string \<Rightarrow> bool" where
  "str_includes [] sub = (sub = [])"
| "str_includes (c # cs) sub = (prefix sub (c # cs) \<or> str_includes cs sub)"

subsection \<open>The task filter\<close>

text \<open>
  The board's filter state: \<^verbatim>\<open>{ priority: string[], tags: string[] }\<close>. The checkbox
  menu appends a priority's text when it is checked and removes it when unchecked.
\<close>

record filters =
  priority :: "string list"
  tags :: "string list"

definition allPriorities :: "string list" where
  "allPriorities = [''low'', ''medium'', ''high'']"

definition onCheckedChange :: "string \<Rightarrow> bool \<Rightarrow> filters \<Rightarrow> filters" where
  "onCheckedChange p checked prev =
     prev\<lparr>priority := (if checked then priority prev @ [p]
                         else filter (\<lambda>q. q \<noteq> p) (priority prev))\<rparr>"

definition matchesSearch :: "string \<Rightarrow> task \<Rightarrow> bool" where
  "matchesSearch searchTerm t \<longleftrightarrow>
     searchTerm = [] \<or>
     str_includes (toLowerCase (task_title t)) (toLowerCase searchTerm) \<or>
     (case task_description t of
        None \<Rightarrow> False
      | Some d \<Rightarrow> d \<noteq> [] \<and> str_includes (toLowerCase d) (toLowerCase searchTerm))"

definition matchesPriority :: "filters \<Rightarrow> task \<Rightarrow> bool" where
  "matchesPriority fs t \<longleftrightarrow>
     length (priority fs) = 0 \<or> priority_text (task_priority t) \<in> set (priority fs)"

definition filteredTasks :: "string \<Rightarrow> filters \<Rightarrow> task list \<Rightarrow> task list" where
  "filteredTasks searchTerm fs ts =
     filter (\<lambda>t. matchesSearch searchTerm t \<and> matchesPriority fs t) ts"

subsection \<open>Columns\<close>

definition columns :: "(string \<times> task_status) list" where
  "columns = [(''To Do'', Todo), (''In Progress'', InProgress),
              (''In Review'', Review), (''Completed'', Completed)]"

text \<open>
  \<^verbatim>\<open>columnCounts\<close> is an object with one count per status; \<open>columnCounts fts st\<close> is its
  entry for \<open>st\<close>, each written as in the source.
\<close>

fun columnCounts :: "task list \<Rightarrow> task_status \<Rightarrow> nat" where
  "columnCounts fts Todo = length (filter (\<lambda>t. task_status t = Todo) fts)"
| "columnCounts fts InProgress = length (filter (\<lambda>t. task_status t = InProgress) fts)"
| "columnCounts fts Review = length (filter (\<lambda>t. task_status t = Review) fts)"
| "columnCounts fts Completed = length (filter (\<lambda>t. task_status t = Completed) fts)"

text \<open>
  A column receives the whole filtered list and renders one card for each of its
  entries whose status is the column's.
\<close>

definition column_cards :: "task_status \<Rightarrow> task list \<Rightarrow> task list" where
  "column_cards st ts = filter (\<lambda>t. task_status t = st) ts"

text \<open>The board: each column of \<^const>\<open>columns\<close> with its count badge and its cards.\<close>

definition board :: "string \<Rightarrow> filters \<Rightarrow> task list \<Rightarrow> (task_status \<times> nat \<times> task list) list" where
  "board searchTerm fs ts =
     (let fts = filteredTasks searchTerm fs ts
      in map (\<lambda>(title, st). (st, columnCounts fts st, column_cards st fts)) columns)"

section \<open>The realtime bridge (\<^verbatim>\<open>pages/ProjectDetail.tsx\<close>)\<close>

text \<open>
  A row-change notification of the tasks table: its \<^verbatim>\<open>eventType\<close> with the part of the
  payload the handler reads (\<^verbatim>\<open>payload.new\<close> as a task, or the id of \<^verbatim>\<open>payload.old\<close>).
  \<open>OTHER\<close> is any event type that none of the handler's three branches names.
\<close>

datatype payload = INSERT task | UPDATE task | DELETE string | OTHER

definition on_postgres_changes :: "payload \<Rightarrow> task list \<Rightarrow> task list" where
  "on_postgres_changes p prev =
     (case p of
        INSERT new \<Rightarrow> new # prev
      | UPDATE new \<Rightarrow> map (\<lambda>t. if task_id t = task_id new then new else t) prev
      | DELETE old_id \<Rightarrow> filter (\<lambda>t. task_id t \<noteq> old_id) prev
      | OTHER \<Rightarrow> prev)"

section \<open>The backend\<close>

text \<open>
  The hosted backend is not part of the repository. A request is answered with
  \<^verbatim>\<open>{ data, error }\<close>: \<open>Inl m\<close> is an error whose message is \<open>m\<close>, \<open>Inr d\<close> is the data.
  Every awaited request takes a \<open>fault\<close>: \<open>Some m\<close> makes the request fail with message
  \<open>m\<close> and leaves the tables as they were, \<open>None\<close> lets the request run. A table is the
  list of rows that the caller's row policy lets it read and change.
\<close>

type_synonym 'a reply = "string + 'a"

type_synonym fault = "string option"

definition await :: "fault \<Rightarrow> 'a \<Rightarrow> 'a reply" where
  "await f d = (case f of Some m \<Rightarrow> Inl m | None \<Rightarrow> Inr d)"

definition eq_rows :: "('r \<Rightarrow> 'v) \<Rightarrow> 'v \<Rightarrow> 'r list \<Rightarrow> 'r list" where
  "eq_rows col v rows = filter (\<lambda>r. col r = v) rows"

definition order_desc :: "('r \<Rightarrow> 'k::linorder) \<Rightarrow> 'r list \<Rightarrow> 'r list" where
  "order_desc col rows = rev (sort_key col rows)"

definition delete_eq :: "fault \<Rightarrow> ('r \<Rightarrow> 'v) \<Rightarrow> 'v \<Rightarrow> 'r list \<Rightarrow> unit reply \<times> 'r list" where
  "delete_eq f col v rows =
     (case f of
        Some m \<Rightarrow> (Inl m, rows)
      | None \<Rightarrow> (Inr (), filter (\<lambda>r. col r \<noteq> v) rows))"

text \<open>
  \<^verbatim>\<open>.update(u).eq(col, v).select().single()\<close>: the rows matched are changed and returned,
  and \<^verbatim>\<open>single()\<close> turns any number of returned rows other than one into an error, the
  write undone.
\<close>

definition single_error :: string where
  "single_error = ''JSON object requested, multiple (or no) rows returned''"

definition update_eq_single ::
    "fault \<Rightarrow> ('r \<Rightarrow> 'r) \<Rightarrow> ('r \<Rightarrow> 'v) \<Rightarrow> 'v \<Rightarrow> 'r list \<Rightarrow> 'r reply \<times> 'r list" where
  "update_eq_single f u col v rows =
     (case f of
        Some m \<Rightarrow> (Inl m, rows)
      | None \<Rightarrow>
          (case filter (\<lambda>r. col r = v) rows of
             [r] \<Rightarrow> (Inr (u r), map (\<lambda>r. if col r = v then u r else r) rows)
           | _ \<Rightarrow> (Inl single_error, rows)))"

definition update_eq :: "fault \<Rightarrow> ('r \<Rightarrow> 'r) \<Rightarrow> ('r \<Rightarrow> 'v) \<Rightarrow> 'v \<Rightarrow> 'r list \<Rightarrow> unit reply \<times> 'r list" where
  "update_eq f u col v rows =
     (case f of
        Some m \<Rightarrow> (Inl m, rows)
      | None \<Rightarrow> (Inr (), map (\<lambda>r. if col r = v then u r else r) rows))"

definition insert_row :: "fault \<Rightarrow> 'r \<Rightarrow> 'r list \<Rightarrow> 'r reply \<times> 'r list" where
  "insert_row f row rows =
     (case f of
        Some m \<Rightarrow> (Inl m, rows)
      | None \<Rightarrow> (Inr row, rows @ [row]))"

section \<open>Application state\<close>

text \<open>What the user is shown, in the order it happens.\<close>

datatype ui_event =
    ToastError string
  | ToastSuccess string
  | ToastInfo string
  | ConsoleError string
  | Navigate string
  | FormReset
  | ClipboardWrite string

text \<open>
  \<^verbatim>\<open>Partial<Task>\<close>: a column the object does not name is \<open>None\<close> and keeps its value.
\<close>

record task_patch =
  set_id :: "string option"
  set_title :: "string option"
  set_description :: "string option option"
  set_status :: "task_status option"
  set_priority :: "task_priority option"
  set_due_date :: "string option option"
  set_task_project_id :: "string option"
  set_user_id :: "string option"
  set_created_at :: "timestamp option"
  set_updated_at :: "timestamp option"

definition no_updates :: task_patch where
  "no_updates = \<lparr>set_id = None, set_title = None, set_description = None, set_status = None,
     set_priority = None, set_due_date = None, set_task_project_id = None, set_user_id = None,
     set_created_at = None, set_updated_at = None\<rparr>"

definition put :: "'a option \<Rightarrow> 'a \<Rightarrow> 'a" where
  "put n old = (case n of None \<Rightarrow> old | Some v \<Rightarrow> v)"

definition patch_task :: "task_patch \<Rightarrow> task \<Rightarrow> task" where
  "patch_task u t =
     t\<lparr>task_id := put (set_id u) (task_id t),
       task_title := put (set_title u) (task_title t),
       task_description := put (set_description u) (task_description t),
       task_status := put (set_status u) (task_status t),
       task_priority := put (set_priority u) (task_priority t),
       task_due_date := put (set_due_date u) (task_due_date t),
       task_project_id := put (set_task_project_id u) (task_project_id t),
       task_user_id := put (set_user_id u) (task_user_id t),
       task_created_at := put (set_created_at u) (task_created_at t),
       task_updated_at := put (set_updated_at u) (task_updated_at t)\<rparr>"

text \<open>
  The rows of the invitation flow. An invitation row carries the columns the pages read
  or write; the embedded team and inviter are display data. \<^verbatim>\<open>accepted_at\<close> is written by
  the client as the text of \<^verbatim>\<open>new Date().toISOString()\<close> and is null until then, so it is
  an optional string. A user is the signed-in identity: its id and, when it has one, its
  email.
\<close>

record user =
  user_id :: string
  user_email :: "string option"

record team_member =
  member_id :: string
  member_team_id :: string
  member_user_id :: string
  member_role :: string
  member_created_at :: timestamp

record invitation =
  invitation_id :: string
  invitation_team_id :: string
  invitation_email :: string
  invitation_role :: string
  invitation_invited_by :: string
  invitation_status :: string
  invitation_accepted_at :: "string option"
  invitation_token :: string

text \<open>The object given to \<^verbatim>\<open>.update(...)\<close> on \<^verbatim>\<open>team_invitations\<close>.\<close>

record invitation_patch =
  put_status :: "string option"
  put_accepted_at :: "string option option"

definition patch_invitation :: "invitation_patch \<Rightarrow> invitation \<Rightarrow> invitation" where
  "patch_invitation u i =
     i\<lparr>invitation_status := put (put_status u) (invitation_status i),
       invitation_accepted_at := put (put_accepted_at u) (invitation_accepted_at i)\<rparr>"

text \<open>The object given to \<^verbatim>\<open>.insert(...)\<close> on \<^verbatim>\<open>team_invitations\<close>.\<close>

record invitation_input =
  input_team_id :: string
  input_email :: string
  input_role :: string
  input_invited_by :: string

text \<open>
  Modelled from the spec: the database schema, which declares the defaults of the columns
  that an insert does not name, is not among the sources. An invitation's status is one of
  pending, accepted and declined, and its token is issued by the backend: a new row is
  pending, has no acceptance timestamp, and gets the id and token the backend issues.
\<close>

definition new_invitation :: "string \<times> string \<Rightarrow> invitation_input \<Rightarrow> invitation" where
  "new_invitation issued inp =
     \<lparr>invitation_id = fst issued,
      invitation_team_id = input_team_id inp,
      invitation_email = input_email inp,
      invitation_role = input_role inp,
      invitation_invited_by = input_invited_by inp,
      invitation_status = ''pending'',
      invitation_accepted_at = None,
      invitation_token = snd issued\<rparr>"

text \<open>
  The objects given to \<^verbatim>\<open>.insert(...)\<close> on the other modelled tables: a row without the
  columns the backend issues (\<^verbatim>\<open>Omit<Project, 'id' | 'created_at' | 'updated_at'>\<close> and
  the like). The backend issues the id and the time, \<open>issued\<close> below; a new row is created
  and updated at that same time.
\<close>

record project_input =
  new_name :: string
  new_description :: "string option"
  new_user_id :: string

definition new_project :: "string \<times> timestamp \<Rightarrow> project_input \<Rightarrow> project" where
  "new_project issued inp =
     \<lparr>project_id = fst issued, project_name = new_name inp,
      project_description = new_description inp, project_user_id = new_user_id inp,
      project_created_at = snd issued, project_updated_at = snd issued\<rparr>"

record task_input =
  new_task_title :: string
  new_task_description :: "string option"
  new_task_status :: task_status
  new_task_priority :: task_priority
  new_task_due_date :: "string option"
  new_task_project_id :: string
  new_task_user_id :: string

definition new_task :: "string \<times> timestamp \<Rightarrow> task_input \<Rightarrow> task" where
  "new_task issued inp =
     \<lparr>task_id = fst issued, task_title = new_task_title inp,
      task_description = new_task_description inp, task_status = new_task_status inp,
      task_priority = new_task_priority inp, task_due_date = new_task_due_date inp,
      task_project_id = new_task_project_id inp, task_user_id = new_task_user_id inp,
      task_created_at = snd issued, task_updated_at = snd issued\<rparr>"

record team_member_input =
  new_member_team_id :: string
  new_member_user_id :: string
  new_member_role :: string

definition new_team_member :: "string \<times> timestamp \<Rightarrow> team_member_input \<Rightarrow> team_member" where
  "new_team_member issued inp =
     \<lparr>member_id = fst issued, member_team_id = new_member_team_id inp,
      member_user_id = new_member_user_id inp, member_role = new_member_role inp,
      member_created_at = snd issued\<rparr>"

text \<open>\<^verbatim>\<open>Partial<Project>\<close>.\<close>

record project_patch =
  set_project_id :: "string option"
  set_project_name :: "string option"
  set_project_description :: "string option option"
  set_project_user_id :: "string option"
  set_project_created_at :: "timestamp option"
  set_project_updated_at :: "timestamp option"

definition patch_project :: "project_patch \<Rightarrow> project \<Rightarrow> project" where
  "patch_project u p =
     p\<lparr>project_id := put (set_project_id u) (project_id p),
       project_name := put (set_project_name u) (project_name p),
       project_description := put (set_project_description u) (project_description p),
       project_user_id := put (set_project_user_id u) (project_user_id p),
       project_created_at := put (set_project_created_at u) (project_created_at p),
       project_updated_at := put (set_project_updated_at u) (project_updated_at p)\<rparr>"

text \<open>
  The requests of the modelled code, as the backend receives them. \<open>Other t\<close> is a request
  to a table \<open>t\<close> that the model does not hold.
\<close>

datatype call =
    ProjectsSelect
  | ProjectsInsert project_input
  | ProjectsUpdateEqId project_patch string
  | ProjectsDeleteEqId string
  | TasksSelectEqProject string
  | TasksInsert task_input
  | TasksUpdateEqId task_patch string
  | TasksDeleteEqId string
  | TasksDeleteEqProject string
  | TeamMembersInsert team_member_input
  | Other string
  | InvitationsSelectPending string
  | InvitationsInsert invitation_input
  | InvitationsUpdateEqId invitation_patch string

record world =
  projects :: "project list"
  tasks :: "task list"
  team_members :: "team_member list"
  team_invitations :: "invitation list"
  calls :: "call list"
  events :: "ui_event list"
  isAccepting :: bool
  isDeclining :: bool
  isInviting :: bool
  isInviteDialogOpen :: bool

definition request :: "call \<Rightarrow> world \<Rightarrow> world" where
  "request c w = w\<lparr>calls := calls w @ [c]\<rparr>"

definition emit :: "ui_event \<Rightarrow> world \<Rightarrow> world" where
  "emit e w = w\<lparr>events := events w @ [e]\<rparr>"

section \<open>The service layer (\<^verbatim>\<open>services/projectService\<close>)\<close>

text \<open>
  Each function is the source's \<^verbatim>\<open>try\<close> block followed by its \<^verbatim>\<open>catch\<close>: an error in the
  reply is thrown and caught in the same function. A function returns its result and the
  state it leaves.
\<close>

subsection \<open>Projects\<close>

definition fetchProjects :: "fault \<Rightarrow> world \<Rightarrow> project list \<times> world" where
  "fetchProjects f w =
     (let w1 = request ProjectsSelect w
      in case await f (order_desc project_created_at (projects w1)) of
           Inl m \<Rightarrow> ([], emit (ToastError (''Error fetching projects: '' @ m)) w1)
         | Inr data \<Rightarrow> (data, w1))"

definition createProject ::
    "project_input \<Rightarrow> string \<times> timestamp \<Rightarrow> fault \<Rightarrow> world \<Rightarrow> project option \<times> world" where
  "createProject inp issued f w =
     (let w1 = request (ProjectsInsert inp) w
      in case insert_row f (new_project issued inp) (projects w1) of
           (Inl m, rows) \<Rightarrow>
             (None, emit (ToastError (''Error creating project: '' @ m)) (w1\<lparr>projects := rows\<rparr>))
         | (Inr data, rows) \<Rightarrow>
             (Some data, emit (ToastSuccess ''Project created successfully!'') (w1\<lparr>projects := rows\<rparr>)))"

definition updateProject ::
    "string \<Rightarrow> project_patch \<Rightarrow> fault \<Rightarrow> world \<Rightarrow> project option \<times> world" where
  "updateProject i updates f w =
     (let w1 = request (ProjectsUpdateEqId updates i) w
      in case update_eq_single f (patch_project updates) project_id i (projects w1) of
           (Inl m, rows) \<Rightarrow>
             (None, emit (ToastError (''Error updating project: '' @ m)) (w1\<lparr>projects := rows\<rparr>))
         | (Inr data, rows) \<Rightarrow>
             (Some data, emit (ToastSuccess ''Project updated successfully!'') (w1\<lparr>projects := rows\<rparr>)))"

text \<open>
  \<^verbatim>\<open>deleteProject\<close> awaits two requests, so it takes two faults: one for the deletion of the
  tasks, one for the deletion of the project.
\<close>

definition deleteProject :: "string \<Rightarrow> fault \<Rightarrow> fault \<Rightarrow> world \<Rightarrow> bool \<times> world" where
  "deleteProject i tasksFault projectFault w =
     (let w1 = request (TasksDeleteEqProject i) w
      in case delete_eq tasksFault task_project_id i (tasks w1) of
           (Inl tasksError, rows) \<Rightarrow>
             (False, emit (ToastError (''Error deleting project: '' @ tasksError)) (w1\<lparr>tasks := rows\<rparr>))
         | (Inr _, rows) \<Rightarrow>
             (let w2 = request (ProjectsDeleteEqId i) (w1\<lparr>tasks := rows\<rparr>)
              in case delete_eq projectFault project_id i (projects w2) of
                   (Inl m, prows) \<Rightarrow>
                     (False, emit (ToastError (''Error deleting project: '' @ m)) (w2\<lparr>projects := prows\<rparr>))
                 | (Inr _, prows) \<Rightarrow>
                     (True, emit (ToastSuccess ''Project deleted successfully!'') (w2\<lparr>projects := prows\<rparr>))))"

subsection \<open>Tasks\<close>

definition fetchTasks :: "string \<Rightarrow> fault \<Rightarrow> world \<Rightarrow> task list \<times> world" where
  "fetchTasks projectId f w =
     (let w1 = request (TasksSelectEqProject projectId) w
      in case await f (order_desc task_created_at (eq_rows task_project_id projectId (tasks w1))) of
           Inl m \<Rightarrow> ([], emit (ToastError (''Error fetching tasks: '' @ m)) w1)
         | Inr data \<Rightarrow> (data, w1))"

definition createTask ::
    "task_input \<Rightarrow> string \<times> timestamp \<Rightarrow> fault \<Rightarrow> world \<Rightarrow> task option \<times> world" where
  "createTask inp issued f w =
     (let w1 = request (TasksInsert inp) w
      in case insert_row f (new_task issued inp) (tasks w1) of
           (Inl m, rows) \<Rightarrow>
             (None, emit (ToastError (''Error creating task: '' @ m)) (w1\<lparr>tasks := rows\<rparr>))
         | (Inr data, rows) \<Rightarrow>
             (Some data, emit (ToastSuccess ''Task created successfully!'') (w1\<lparr>tasks := rows\<rparr>)))"

definition updateTask :: "string \<Rightarrow> task_patch \<Rightarrow> fault \<Rightarrow> world \<Rightarrow> task option \<times> world" where
  "updateTask i updates f w =
     (let w1 = request (TasksUpdateEqId updates i) w
      in case update_eq_single f (patch_task updates) task_id i (tasks w1) of
           (Inl m, rows) \<Rightarrow>
             (None, emit (ToastError (''Error updating task: '' @ m)) (w1\<lparr>tasks := rows\<rparr>))
         | (Inr data, rows) \<Rightarrow>
             (Some data, emit (ToastSuccess ''Task updated successfully!'') (w1\<lparr>tasks := rows\<rparr>)))"

definition updateTaskStatus :: "string \<Rightarrow> task_status \<Rightarrow> fault \<Rightarrow> world \<Rightarrow> task option \<times> world" where
  "updateTaskStatus i st f w = updateTask i (no_updates\<lparr>set_status := Some st\<rparr>) f w"

definition deleteTask :: "string \<Rightarrow> fault \<Rightarrow> world \<Rightarrow> bool \<times> world" where
  "deleteTask i f w =
     (let w1 = request (TasksDeleteEqId i) w
      in case delete_eq f task_id i (tasks w1) of
           (Inl m, rows) \<Rightarrow>
             (False, emit (ToastError (''Error deleting task: '' @ m)) (w1\<lparr>tasks := rows\<rparr>))
         | (Inr _, rows) \<Rightarrow>
             (True, emit (ToastSuccess ''Task deleted successfully!'') (w1\<lparr>tasks := rows\<rparr>)))"

subsection \<open>Team members\<close>

definition addTeamMember ::
    "team_member_input \<Rightarrow> string \<times> timestamp \<Rightarrow> fault \<Rightarrow> world \<Rightarrow> team_member option \<times> world" where
  "addTeamMember inp issued f w =
     (let w1 = request (TeamMembersInsert inp) w
      in case insert_row f (new_team_member issued inp) (team_members w1) of
           (Inl m, rows) \<Rightarrow>
             (None, emit (ToastError (''Error adding team member: '' @ m)) (w1\<lparr>team_members := rows\<rparr>))
         | (Inr data, rows) \<Rightarrow>
             (Some data, emit (ToastSuccess ''Team member added successfully!'') (w1\<lparr>team_members := rows\<rparr>)))"

subsection \<open>Tables outside the model\<close>

text \<open>
  The remaining functions read and write tables that the model does not hold (teams, user
  profiles, tags, task tags, comments, project members). The backend's reply to their one
  request is an argument, and its rows are of any type.
\<close>

definition fetchTeams :: "'team list reply \<Rightarrow> world \<Rightarrow> 'team list \<times> world" where
  "fetchTeams r w =
     (let w1 = request (Other ''teams'') w
      in case r of
           Inl m \<Rightarrow> ([], emit (ToastError (''Error fetching teams: '' @ m)) w1)
         | Inr data \<Rightarrow> (data, w1))"

definition createTeam :: "'team reply \<Rightarrow> world \<Rightarrow> 'team option \<times> world" where
  "createTeam r w =
     (let w1 = request (Other ''teams'') w
      in case r of
           Inl m \<Rightarrow> (None, emit (ToastError (''Error creating team: '' @ m)) w1)
         | Inr data \<Rightarrow> (Some data, emit (ToastSuccess ''Team created successfully!'') w1))"

definition fetchUserProfile :: "'profile reply \<Rightarrow> world \<Rightarrow> 'profile option \<times> world" where
  "fetchUserProfile r w =
     (let w1 = request (Other ''user_profiles'') w
      in case r of
           Inl m \<Rightarrow> (None, emit (ConsoleError (''Error fetching user profile: '' @ m)) w1)
         | Inr data \<Rightarrow> (Some data, w1))"

definition updateUserProfile :: "'profile reply \<Rightarrow> world \<Rightarrow> 'profile option \<times> world" where
  "updateUserProfile r w =
     (let w1 = request (Other ''user_profiles'') w
      in case r of
           Inl m \<Rightarrow> (None, emit (ToastError (''Error updating profile: '' @ m)) w1)
         | Inr data \<Rightarrow> (Some data, emit (ToastSuccess ''Profile updated successfully!'') w1))"

definition fetchTags :: "'tag list reply \<Rightarrow> world \<Rightarrow> 'tag list \<times> world" where
  "fetchTags r w =
     (let w1 = request (Other ''tags'') w
      in case r of
           Inl m \<Rightarrow> ([], emit (ToastError (''Error fetching tags: '' @ m)) w1)
         | Inr data \<Rightarrow> (data, w1))"

definition createTag :: "'tag reply \<Rightarrow> world \<Rightarrow> 'tag option \<times> world" where
  "createTag r w =
     (let w1 = request (Other ''tags'') w
      in case r of
           Inl m \<Rightarrow> (None, emit (ToastError (''Error creating tag: '' @ m)) w1)
         | Inr data \<Rightarrow> (Some data, emit (ToastSuccess ''Tag created successfully!'') w1))"

definition addTagToTask :: "'tasktag reply \<Rightarrow> world \<Rightarrow> 'tasktag option \<times> world" where
  "addTagToTask r w =
     (let w1 = request (Other ''task_tags'') w
      in case r of
           Inl m \<Rightarrow> (None, emit (ToastError (''Error adding tag to task: '' @ m)) w1)
         | Inr data \<Rightarrow> (Some data, w1))"

definition removeTagFromTask :: "unit reply \<Rightarrow> world \<Rightarrow> bool \<times> world" where
  "removeTagFromTask r w =
     (let w1 = request (Other ''task_tags'') w
      in case r of
           Inl m \<Rightarrow> (False, emit (ToastError (''Error removing tag from task: '' @ m)) w1)
         | Inr _ \<Rightarrow> (True, w1))"

definition fetchComments :: "'comment list reply \<Rightarrow> world \<Rightarrow> 'comment list \<times> world" where
  "fetchComments r w =
     (let w1 = request (Other ''comments'') w
      in case r of
           Inl m \<Rightarrow> ([], emit (ToastError (''Error fetching comments: '' @ m)) w1)
         | Inr data \<Rightarrow> (data, w1))"

definition createComment :: "'comment reply \<Rightarrow> world \<Rightarrow> 'comment option \<times> world" where
  "createComment r w =
     (let w1 = request (Other ''comments'') w
      in case r of
           Inl m \<Rightarrow> (None, emit (ToastError (''Error creating comment: '' @ m)) w1)
         | Inr data \<Rightarrow> (Some data, w1))"

definition addProjectMember :: "unit reply \<Rightarrow> world \<Rightarrow> bool \<times> world" where
  "addProjectMember r w =
     (let w1 = request (Other ''project_members'') w
      in case r of
           Inl m \<Rightarrow> (False, emit (ToastError (''Error adding member to project: '' @ m)) w1)
         | Inr _ \<Rightarrow> (True, emit (ToastSuccess ''Member added to project successfully!'') w1))"

definition fetchProjectMembers :: "'member list reply \<Rightarrow> world \<Rightarrow> 'member list \<times> world" where
  "fetchProjectMembers r w =
     (let w1 = request (Other ''project_members'') w
      in case r of
           Inl m \<Rightarrow> ([], emit (ToastError (''Error fetching project members: '' @ m)) w1)
         | Inr data \<Rightarrow> (data, w1))"

section \<open>Dragging a card (\<^verbatim>\<open>TaskCard\<close>, \<^verbatim>\<open>KanbanColumn\<close>, \<^verbatim>\<open>KanbanBoard\<close>)\<close>

text \<open>
  The drag's transfer data under \<^verbatim>\<open>application/json\<close>: \<open>None\<close> when there is none (the
  empty string), otherwise the object that \<^verbatim>\<open>handleDragStart\<close> wrote, read back by
  \<^verbatim>\<open>JSON.parse\<close>.
\<close>

type_synonym drag_data = "(string \<times> task_status) option"

definition handleDragStart :: "task \<Rightarrow> drag_data" where
  "handleDragStart t = Some (task_id t, task_status t)"

text \<open>
  \<^verbatim>\<open>handleDrop\<close> of the column with status \<open>st\<close>, whose \<^verbatim>\<open>tasks\<close> are the board's filtered
  tasks. The result is the call of \<^verbatim>\<open>onDrop\<close> it makes, if any. The column's highlight
  while a card hovers over it (\<^verbatim>\<open>isDropping\<close>) is display state and is left out.
\<close>

definition handleDrop :: "drag_data \<Rightarrow> task_status \<Rightarrow> task list \<Rightarrow> (task \<times> task_status) option" where
  "handleDrop taskData st ts =
     (case taskData of
        None \<Rightarrow> None
      | Some (dragged_id, dragged_status) \<Rightarrow>
          if dragged_status \<noteq> st
          then (case find (\<lambda>t. task_id t = dragged_id) ts of
                  None \<Rightarrow> None
                | Some fullTask \<Rightarrow> Some (fullTask, st))
          else None)"

text \<open>
  \<^verbatim>\<open>handleTaskDrop\<close> is the board's \<^verbatim>\<open>onDrop\<close>. \<^verbatim>\<open>updateTaskStatus\<close> catches its own
  errors, so the \<^verbatim>\<open>catch\<close> of \<^verbatim>\<open>handleTaskDrop\<close> is never entered.
\<close>

definition handleTaskDrop :: "task \<Rightarrow> task_status \<Rightarrow> fault \<Rightarrow> world \<Rightarrow> world" where
  "handleTaskDrop t newStatus f w = snd (updateTaskStatus (task_id t) newStatus f w)"

text \<open>
  The board passes \<^verbatim>\<open>handleTaskDrop\<close> to every column as \<^verbatim>\<open>onDrop\<close>, and its filtered
  tasks as \<^verbatim>\<open>tasks\<close>: a drop on the column with status \<open>st\<close> is \<^verbatim>\<open>handleDrop\<close> followed by
  the call it makes.
\<close>

definition drop_on_column :: "drag_data \<Rightarrow> task_status \<Rightarrow> task list \<Rightarrow> fault \<Rightarrow> world \<Rightarrow> world" where
  "drop_on_column taskData st fts f w =
     (case handleDrop taskData st fts of
        None \<Rightarrow> w
      | Some (fullTask, newStatus) \<Rightarrow> handleTaskDrop fullTask newStatus f w)"

section \<open>The invitation page (\<^verbatim>\<open>TeamInvitationPage\<close>)\<close>

text \<open>The \<^verbatim>\<open>catch\<close> block of \<^verbatim>\<open>handleAccept\<close>, entered with the error's message.\<close>

definition accept_failed :: "string \<Rightarrow> world \<Rightarrow> world" where
  "accept_failed m w =
     emit (ToastError ''There was a problem accepting the invitation'')
       (emit (ConsoleError (''Error accepting invitation: '' @ m)) w)"

text \<open>
  \<open>now\<close> is \<^verbatim>\<open>new Date().toISOString()\<close>; \<open>issued\<close> is the id and time the backend gives the
  new membership; the two faults are those of the insert and of the update.
\<close>

definition handleAccept ::
    "user option \<Rightarrow> invitation option \<Rightarrow> string \<Rightarrow> string \<times> timestamp \<Rightarrow> fault \<Rightarrow> fault
       \<Rightarrow> world \<Rightarrow> world" where
  "handleAccept usr invitation now issued memberFault updateFault w =
     (case (usr, invitation) of
        (Some u, Some i) \<Rightarrow>
          (let w0 = w\<lparr>isAccepting := True\<rparr>;
               w' =
                 (if user_email u \<noteq> Some (invitation_email i)
                  then emit (ToastError ''This invitation was sent to a different email address'') w0
                  else
                    (let inp = \<lparr>new_member_team_id = invitation_team_id i,
                                new_member_user_id = user_id u,
                                new_member_role = invitation_role i\<rparr>;
                         w1 = request (TeamMembersInsert inp) w0
                     in case insert_row memberFault (new_team_member issued inp) (team_members w1) of
                          (Inl memberError, rows) \<Rightarrow>
                            accept_failed memberError (w1\<lparr>team_members := rows\<rparr>)
                        | (Inr _, rows) \<Rightarrow>
                            (let upd = \<lparr>put_status = Some ''accepted'',
                                        put_accepted_at = Some (Some now)\<rparr>;
                                 w2 = request (InvitationsUpdateEqId upd (invitation_id i))
                                        (w1\<lparr>team_members := rows\<rparr>)
                             in case update_eq updateFault (patch_invitation upd) invitation_id
                                       (invitation_id i) (team_invitations w2) of
                                  (Inl updateError, irows) \<Rightarrow>
                                    accept_failed updateError (w2\<lparr>team_invitations := irows\<rparr>)
                                | (Inr _, irows) \<Rightarrow>
                                    emit (Navigate ''/teams'')
                                      (emit (ToastSuccess ''You have successfully joined the team!'')
                                         (w2\<lparr>team_invitations := irows\<rparr>)))))
           in w'\<lparr>isAccepting := False\<rparr>)
      | _ \<Rightarrow> w)"

definition handleDecline :: "invitation option \<Rightarrow> fault \<Rightarrow> world \<Rightarrow> world" where
  "handleDecline invitation f w =
     (case invitation of
        None \<Rightarrow> w
      | Some i \<Rightarrow>
          (let w0 = w\<lparr>isDeclining := True\<rparr>;
               upd = \<lparr>put_status = Some ''declined'', put_accepted_at = None\<rparr>;
               w1 = request (InvitationsUpdateEqId upd (invitation_id i)) w0;
               w' =
                 (case update_eq f (patch_invitation upd) invitation_id (invitation_id i)
                         (team_invitations w1) of
                    (Inl m, rows) \<Rightarrow>
                      emit (ToastError ''There was a problem declining the invitation'')
                        (emit (ConsoleError (''Error declining invitation: '' @ m))
                           (w1\<lparr>team_invitations := rows\<rparr>))
                  | (Inr _, rows) \<Rightarrow>
                      emit (Navigate ''/'')
                        (emit (ToastInfo ''Invitation declined'') (w1\<lparr>team_invitations := rows\<rparr>)))
           in w'\<lparr>isDeclining := False\<rparr>))"

section \<open>Inviting (\<^verbatim>\<open>pages/TeamPage.tsx\<close>)\<close>

record invite_values =
  values_email :: string
  values_role :: string

text \<open>\<open>issued\<close> is the id and the token that the backend gives the new invitation.\<close>

definition handleInvite ::
    "user option \<Rightarrow> string option \<Rightarrow> invite_values \<Rightarrow> string \<times> string \<Rightarrow> fault \<Rightarrow> world \<Rightarrow> world" where
  "handleInvite usr currentTeam vals issued f w =
     (case (usr, currentTeam) of
        (Some u, Some team) \<Rightarrow>
          if team = [] then w
          else
            (let w0 = w\<lparr>isInviting := True\<rparr>;
                 inp = \<lparr>input_team_id = team, input_email = values_email vals,
                        input_role = values_role vals, input_invited_by = user_id u\<rparr>;
                 w1 = request (InvitationsInsert inp) w0;
                 w' =
                   (case insert_row f (new_invitation issued inp) (team_invitations w1) of
                      (Inl m, rows) \<Rightarrow>
                        emit (ToastError (''Error sending invitation: '' @ m))
                          (emit (ConsoleError (''Error sending invitation: '' @ m))
                             (w1\<lparr>team_invitations := rows\<rparr>))
                    | (Inr _, rows) \<Rightarrow>
                        emit (ToastSuccess (''Invitation sent to '' @ values_email vals))
                          ((emit FormReset (w1\<lparr>team_invitations := rows\<rparr>))
                             \<lparr>isInviteDialogOpen := False\<rparr>))
             in w'\<lparr>isInviting := False\<rparr>)
      | _ \<Rightarrow> w)"

text \<open>
  \<^verbatim>\<open>copyInvitationLink\<close>: \<open>origin\<close> is \<^verbatim>\<open>window.location.origin\<close>, \<open>clipboard_ok\<close> tells
  whether the clipboard accepts the text. The highlight of a copied link and its timer
  are display state and are left out.
\<close>

definition copyInvitationLink :: "string \<Rightarrow> bool \<Rightarrow> string \<Rightarrow> world \<Rightarrow> world" where
  "copyInvitationLink origin clipboard_ok token w =
     (let link = origin @ ''/team/invite/'' @ token
      in if clipboard_ok
         then emit (ToastSuccess ''Invitation link copied to clipboard'')
                (emit (ClipboardWrite link) w)
         else emit (ToastError ''Failed to copy link'') w)"

text \<open>The \<^verbatim>\<open>catch\<close> block of \<^verbatim>\<open>getInvitationLink\<close>.\<close>

definition link_failed :: "string \<Rightarrow> world \<Rightarrow> world" where
  "link_failed m w =
     emit (ToastError ''Failed to generate invitation link'')
       (emit (ConsoleError (''Error generating invitation link: '' @ m)) w)"

definition getInvitationLink ::
    "user option \<Rightarrow> string \<Rightarrow> string \<times> string \<Rightarrow> fault \<Rightarrow> fault \<Rightarrow> string \<Rightarrow> bool
       \<Rightarrow> world \<Rightarrow> world" where
  "getInvitationLink usr teamId issued fetchFault insertFault origin clipboard_ok w =
     (let w1 = request (InvitationsSelectPending teamId) w
      in case await fetchFault
                (eq_rows invitation_status ''pending''
                   (eq_rows invitation_team_id teamId (team_invitations w1))) of
           Inl fetchError \<Rightarrow> link_failed fetchError w1
         | Inr existingInvitations \<Rightarrow>
             (case existingInvitations of
                e # _ \<Rightarrow> copyInvitationLink origin clipboard_ok (invitation_token e) w1
              | [] \<Rightarrow>
                  (let inp = \<lparr>input_team_id = teamId,
                              input_email = ''general_invite@example.com'',
                              input_role = ''member'',
                              input_invited_by = (case usr of None \<Rightarrow> [] | Some u \<Rightarrow> user_id u)\<rparr>;
                       w2 = request (InvitationsInsert inp) w1
                   in case insert_row insertFault (new_invitation issued inp) (team_invitations w2) of
                        (Inl m, rows) \<Rightarrow> link_failed m (w2\<lparr>team_invitations := rows\<rparr>)
                      | (Inr data, rows) \<Rightarrow>
                          copyInvitationLink origin clipboard_ok (invitation_token data)
                            (w2\<lparr>team_invitations := rows\<rparr>))))"

subsection \<open>Sequences of invitation actions\<close>

text \<open>
  The four handlers above are the only code of the application that writes to
  \<^verbatim>\<open>team_invitations\<close>. An action is one run of a handler with its arguments.
\<close>

datatype action =
    Accept "user option" "invitation option" string "string \<times> timestamp" fault fault
  | Decline "invitation option" fault
  | Invite "user option" "string option" invite_values "string \<times> string" fault
  | GetLink "user option" string "string \<times> string" fault fault string bool

fun perform :: "action \<Rightarrow> world \<Rightarrow> world" where
  "perform (Accept usr invitation now issued mf uf) w =
     handleAccept usr invitation now issued mf uf w"
| "perform (Decline invitation f) w = handleDecline invitation f w"
| "perform (Invite usr team vals issued f) w = handleInvite usr team vals issued f w"
| "perform (GetLink usr teamId issued ff insf origin ok) w =
     getInvitationLink usr teamId issued ff insf origin ok w"

definition run :: "action list \<Rightarrow> world \<Rightarrow> world" where
  "run acts w = fold perform acts w"

text \<open>
  The invariant on the stored invitations, and the condition on a single request: an
  update of an invitation that sets the status to accepted names a timestamp as well.
\<close>

definition accepted_has_timestamp :: "invitation \<Rightarrow> bool" where
  "accepted_has_timestamp i \<longleftrightarrow>
     (if invitation_status i = ''accepted'' then invitation_accepted_at i \<noteq> None else True)"

fun accepting_sets_timestamp :: "call \<Rightarrow> bool" where
  "accepting_sets_timestamp (InvitationsUpdateEqId u i) =
     (if put_status u = Some ''accepted''
      then (case put_accepted_at u of Some (Some ts) \<Rightarrow> True | _ \<Rightarrow> False)
      else True)"
| "accepting_sets_timestamp _ = True"

section \<open>Reporting a failure\<close>

text \<open>
  \<open>toasts_error m w w'\<close>: from \<open>w\<close> to \<open>w'\<close> exactly one thing was shown, an error toast
  whose text includes \<open>m\<close>. \<open>reports m w r s\<close>: the run that started in \<open>w\<close> and ended
  with result and state \<open>r\<close> returned \<open>s\<close> and showed such a toast.
\<close>

definition toasts_error :: "string \<Rightarrow> world \<Rightarrow> world \<Rightarrow> bool" where
  "toasts_error m w w' \<longleftrightarrow>
     take (length (events w)) (events w') = events w \<and>
     (case drop (length (events w)) (events w') of
        [ToastError text] \<Rightarrow> str_includes text m
      | _ \<Rightarrow> False)"

definition reports :: "string \<Rightarrow> world \<Rightarrow> 'a \<times> world \<Rightarrow> 'a \<Rightarrow> bool" where
  "reports m w r s \<longleftrightarrow> fst r = s \<and> toasts_error m w (snd r)"

section \<open>Example data\<close>

definition task1 :: task where
  "task1 = \<lparr>task_id = ''t1'', task_title = ''Write report'', task_description = None,
     task_status = Todo, task_priority = High, task_due_date = None,
     task_project_id = ''p1'', task_user_id = ''u1'', task_created_at = 10, task_updated_at = 10\<rparr>"

definition task2 :: task where
  "task2 = \<lparr>task_id = ''t2'', task_title = ''Review design'', task_description = Some ''urgent'',
     task_status = Review, task_priority = Low, task_due_date = None,
     task_project_id = ''p1'', task_user_id = ''u1'', task_created_at = 20, task_updated_at = 20\<rparr>"

definition task3 :: task where
  "task3 = \<lparr>task_id = ''t3'', task_title = ''Ship'', task_description = None,
     task_status = Completed, task_priority = Medium, task_due_date = None,
     task_project_id = ''p2'', task_user_id = ''u1'', task_created_at = 15, task_updated_at = 30\<rparr>"

definition project1 :: project where
  "project1 = \<lparr>project_id = ''p1'', project_name = ''Website'', project_description = None,
     project_user_id = ''u1'', project_created_at = 5, project_updated_at = 5\<rparr>"

definition project2 :: project where
  "project2 = \<lparr>project_id = ''p2'', project_name = ''Launch'', project_description = None,
     project_user_id = ''u1'', project_created_at = 7, project_updated_at = 7\<rparr>"

definition invitation1 :: invitation where
  "invitation1 = \<lparr>invitation_id = ''i1'', invitation_team_id = ''tm1'',
     invitation_email = ''ann@example.com'', invitation_role = ''member'',
     invitation_invited_by = ''u0'', invitation_status = ''pending'',
     invitation_accepted_at = None, invitation_token = ''tok1''\<rparr>"

definition ann :: user where
  "ann = \<lparr>user_id = ''u1'', user_email = Some ''ann@example.com''\<rparr>"

definition bob :: user where
  "bob = \<lparr>user_id = ''u2'', user_email = Some ''bob@example.com''\<rparr>"

definition world0 :: world where
  "world0 = \<lparr>projects = [project1, project2], tasks = [task1, task2, task3],
     team_members = [], team_invitations = [invitation1], calls = [], events = [],
     isAccepting = False, isDeclining = False, isInviting = False,
     isInviteDialogOpen = True\<rparr>"

section \<open>Properties\<close>

subsection \<open>Helper facts\<close>

lemma priority_text_high: "priority_text p = ''high'' \<longleftrightarrow> p = High"
  by (cases p) simp_all

lemma priority_text_range: "priority_text p \<in> {''low'', ''medium'', ''high''}"
  by (cases p) simp_all

lemma matchesSearch_empty: "matchesSearch [] t"
  by (simp add: matchesSearch_def)

lemma count_by_status:
  "length (filter (\<lambda>t. task_status t = Todo) xs) +
   length (filter (\<lambda>t. task_status t = InProgress) xs) +
   length (filter (\<lambda>t. task_status t = Review) xs) +
   length (filter (\<lambda>t. task_status t = Completed) xs) = length xs"
proof (induction xs)
  case Nil
  show ?case by simp
next
  case (Cons x xs)
  then show ?case by (cases "task_status x") simp_all
qed

lemma columnCounts_cards: "columnCounts xs st = length (column_cards st xs)"
  by (cases st) (simp_all add: column_cards_def)

lemma cards_by_status:
  "mset (column_cards Todo xs) + mset (column_cards InProgress xs) +
   mset (column_cards Review xs) + mset (column_cards Completed xs) = mset xs"
proof (induction xs)
  case Nil
  show ?case by (simp add: column_cards_def)
next
  case (Cons x xs)
  then show ?case by (cases "task_status x") (simp_all add: column_cards_def)
qed

lemma in_column_cards: "t \<in> set xs \<Longrightarrow> t \<in> set (column_cards st xs) \<longleftrightarrow> st = task_status t"
  by (auto simp: column_cards_def)

lemma status_in_columns: "\<exists>title. (title, st) \<in> set columns"
  by (cases st) (auto simp: columns_def)

lemma columns_distinct: "distinct (map snd columns)"
  by (simp add: columns_def)

lemma order_desc_sorted: "sorted_wrt (\<lambda>a b. col b \<le> col a) (order_desc col rows)"
proof -
  have "sorted (map col (sort_key col rows))" by simp
  then have "sorted_wrt (\<lambda>a b. col a \<le> col b) (sort_key col rows)"
    by (simp add: sorted_map)
  then show ?thesis
    by (simp add: order_desc_def sorted_wrt_rev)
qed

lemma order_desc_mset: "mset (order_desc col rows) = mset rows"
  by (simp add: order_desc_def)

lemma order_desc_set: "set (order_desc col rows) = set rows"
  by (simp add: order_desc_def)

lemma find_id:
  "c \<in> set fts \<Longrightarrow> \<exists>ft. find (\<lambda>t. task_id t = task_id c) fts = Some ft \<and> task_id ft = task_id c"
  by (cases "find (\<lambda>t. task_id t = task_id c) fts")
     (auto simp: find_None_iff dest: find_Some_iff [THEN iffD1])

lemma updateTask_calls: "calls (snd (updateTask i u f w)) = calls w @ [TasksUpdateEqId u i]"
  by (simp add: updateTask_def Let_def request_def emit_def split: prod.splits sum.splits)

lemma updateTask_Some:
  assumes "fst (updateTask i u f w) \<noteq> None"
  shows "tasks (snd (updateTask i u f w)) =
           map (\<lambda>r. if task_id r = i then patch_task u r else r) (tasks w)"
  using assms
  by (auto simp: updateTask_def Let_def request_def emit_def update_eq_single_def
           split: prod.splits sum.splits option.splits list.splits)

lemma status_patch:
  "task_status (patch_task (no_updates\<lparr>set_status := Some st\<rparr>) r) = st"
  "task_id (patch_task (no_updates\<lparr>set_status := Some st\<rparr>) r) = task_id r"
  by (simp_all add: patch_task_def no_updates_def put_def)

subsection \<open>Deleting a project\<close>

text \<open>
  C1. \<^verbatim>\<open>deleteProject(id)\<close> first asks the backend to delete the tasks whose project is
  \<open>id\<close>, and asks it to delete the project only when that request succeeded. When the
  deletion of the tasks fails, it returns false, has issued that one request only, and the
  tables are as before. When the deletion of the tasks succeeds and that of the project
  fails, it returns false, the tasks are gone and the projects are as before. When both
  succeed it returns true and both are gone. The request to delete the project is among
  the requests issued exactly when the deletion of the tasks succeeded, and whenever the
  projects table has changed, no task of the project is left.
\<close>

theorem deleteProject_two_steps:
  "(tasksFault = Some m \<longrightarrow>
      deleteProject i tasksFault projectFault w =
        (False, emit (ToastError (''Error deleting project: '' @ m))
                  (request (TasksDeleteEqProject i) w))) \<and>
   (tasksFault = None \<and> projectFault = Some m \<longrightarrow>
      deleteProject i tasksFault projectFault w =
        (False, emit (ToastError (''Error deleting project: '' @ m))
                  (request (ProjectsDeleteEqId i)
                     ((request (TasksDeleteEqProject i) w)
                        \<lparr>tasks := filter (\<lambda>t. task_project_id t \<noteq> i) (tasks w)\<rparr>)))) \<and>
   (tasksFault = None \<and> projectFault = None \<longrightarrow>
      deleteProject i tasksFault projectFault w =
        (True, emit (ToastSuccess ''Project deleted successfully!'')
                 ((request (ProjectsDeleteEqId i)
                     ((request (TasksDeleteEqProject i) w)
                        \<lparr>tasks := filter (\<lambda>t. task_project_id t \<noteq> i) (tasks w)\<rparr>))
                    \<lparr>projects := filter (\<lambda>p. project_id p \<noteq> i) (projects w)\<rparr>))) \<and>
   (ProjectsDeleteEqId i
      \<in> set (drop (length (calls w)) (calls (snd (deleteProject i tasksFault projectFault w))))
      \<longleftrightarrow> tasksFault = None) \<and>
   (projects (snd (deleteProject i tasksFault projectFault w)) \<noteq> projects w \<longrightarrow>
      (\<forall>t \<in> set (tasks (snd (deleteProject i tasksFault projectFault w))).
         task_project_id t \<noteq> i))"
  by (cases tasksFault; cases projectFault)
     (simp_all add: deleteProject_def Let_def delete_eq_def request_def emit_def)

text \<open>
  The reachable half at a concrete input: the project's deletion fails after its tasks
  were deleted, and the project stays without its tasks.
\<close>

theorem deleteProject_two_steps_witness:
  "fst (deleteProject ''p1'' None (Some ''network error'') world0) = False \<and>
   tasks (snd (deleteProject ''p1'' None (Some ''network error'') world0)) = [task3] \<and>
   projects (snd (deleteProject ''p1'' None (Some ''network error'') world0)) = [project1, project2] \<and>
   calls (snd (deleteProject ''p1'' None (Some ''network error'') world0))
     = [TasksDeleteEqProject ''p1'', ProjectsDeleteEqId ''p1''] \<and>
   calls (snd (deleteProject ''p1'' (Some ''network error'') None world0))
     = [TasksDeleteEqProject ''p1''] \<and>
   tasks (snd (deleteProject ''p1'' (Some ''network error'') None world0)) = [task1, task2, task3]"
  using deleteProject_two_steps [of None "''network error''" "''p1''" "Some ''network error''" world0]
        deleteProject_two_steps [of "Some ''network error''" "''network error''" "''p1''" None world0]
  by (simp add: request_def emit_def world0_def task1_def task2_def task3_def)

subsection \<open>Dropping a card on a column\<close>

text \<open>
  C2, as amended. A card dropped on the column of its own status, or a drop without
  transfer data, issues no request and changes nothing. A card of the column's tasks
  dropped on a column of another status runs \<^verbatim>\<open>updateTaskStatus\<close> once, with the task's id
  and the column's status: exactly one request is issued, the update of that task to that
  status. When this update returns a task (it did not fail), every stored task with that
  id has the column's status. The columns' statuses are todo, in-progress, review and
  completed.
\<close>

theorem drop_updates_status:
  "(task_status c = st \<longrightarrow> drop_on_column (handleDragStart c) st fts f w = w) \<and>
   (drop_on_column None st fts f w = w) \<and>
   (c \<in> set fts \<and> task_status c \<noteq> st \<longrightarrow>
      drop_on_column (handleDragStart c) st fts f w = snd (updateTaskStatus (task_id c) st f w) \<and>
      calls (drop_on_column (handleDragStart c) st fts f w) =
        calls w @ [TasksUpdateEqId (no_updates\<lparr>set_status := Some st\<rparr>) (task_id c)]) \<and>
   (c \<in> set fts \<and> task_status c \<noteq> st \<and> fst (updateTaskStatus (task_id c) st f w) \<noteq> None \<longrightarrow>
      (\<forall>t \<in> set (tasks (drop_on_column (handleDragStart c) st fts f w)).
         task_id t = task_id c \<longrightarrow> task_status t = st)) \<and>
   map (\<lambda>c. status_text (snd c)) columns = [''todo'', ''in-progress'', ''review'', ''completed'']"
proof (intro conjI impI)
  show "drop_on_column (handleDragStart c) st fts f w = w" if "task_status c = st"
    using that by (simp add: drop_on_column_def handleDrop_def handleDragStart_def)
  show "drop_on_column None st fts f w = w"
    by (simp add: drop_on_column_def handleDrop_def)
  show "map (\<lambda>c. status_text (snd c)) columns
          = [''todo'', ''in-progress'', ''review'', ''completed'']"
    by (simp add: columns_def)
next
  assume a: "c \<in> set fts \<and> task_status c \<noteq> st"
  then obtain ft where ft: "find (\<lambda>t. task_id t = task_id c) fts = Some ft" "task_id ft = task_id c"
    using find_id by blast
  with a show run:
    "drop_on_column (handleDragStart c) st fts f w = snd (updateTaskStatus (task_id c) st f w)"
    by (simp add: drop_on_column_def handleDrop_def handleDragStart_def handleTaskDrop_def)
  show "calls (drop_on_column (handleDragStart c) st fts f w) =
        calls w @ [TasksUpdateEqId (no_updates\<lparr>set_status := Some st\<rparr>) (task_id c)]"
    unfolding run by (simp add: updateTaskStatus_def updateTask_calls)
next
  assume a: "c \<in> set fts \<and> task_status c \<noteq> st \<and>
             fst (updateTaskStatus (task_id c) st f w) \<noteq> None"
  then obtain ft where ft: "find (\<lambda>t. task_id t = task_id c) fts = Some ft" "task_id ft = task_id c"
    using find_id by blast
  with a have run:
    "drop_on_column (handleDragStart c) st fts f w = snd (updateTaskStatus (task_id c) st f w)"
    by (simp add: drop_on_column_def handleDrop_def handleDragStart_def handleTaskDrop_def)
  from a have "tasks (snd (updateTaskStatus (task_id c) st f w)) =
      map (\<lambda>r. if task_id r = task_id c
               then patch_task (no_updates\<lparr>set_status := Some st\<rparr>) r else r) (tasks w)"
    unfolding updateTaskStatus_def by (simp add: updateTask_Some)
  then show "\<forall>t \<in> set (tasks (drop_on_column (handleDragStart c) st fts f w)).
         task_id t = task_id c \<longrightarrow> task_status t = st"
    unfolding run by (auto simp: status_patch)
qed

text \<open>
  At a concrete input: the card of the first example task, which is to do, is dropped on
  the review column, and the backend accepts the update.
\<close>

theorem drop_updates_status_witness:
  "task1 \<in> set [task1, task2] \<and> task_status task1 \<noteq> Review \<and>
   fst (updateTaskStatus (task_id task1) Review None world0) \<noteq> None \<and>
   calls (drop_on_column (handleDragStart task1) Review [task1, task2] None world0)
     = [TasksUpdateEqId (no_updates\<lparr>set_status := Some Review\<rparr>) ''t1''] \<and>
   map task_status (tasks (drop_on_column (handleDragStart task1) Review [task1, task2] None world0))
     = [Review, Review, Completed]"
  using drop_updates_status [of task1 Review "[task1, task2]" None world0]
  by (simp add: drop_on_column_def handleDrop_def handleDragStart_def handleTaskDrop_def
        updateTaskStatus_def updateTask_def update_eq_single_def Let_def request_def emit_def
        patch_task_def no_updates_def put_def world0_def task1_def task2_def task3_def)

text \<open>
  The claim as stated fails twice: a card dropped on its own column issues no request at
  all, and when the backend refuses the update the task keeps its status, which is not
  the target column's.
\<close>

theorem drop_updates_status_counterexample:
  "calls (drop_on_column (handleDragStart task1) Todo [task1, task2] None world0) = [] \<and>
   task_status task1 \<noteq> Review \<and>
   tasks (drop_on_column (handleDragStart task1) Review [task1, task2] (Some ''offline'') world0)
     = [task1, task2, task3]"
  by (simp add: drop_on_column_def handleDrop_def handleDragStart_def handleTaskDrop_def
        updateTaskStatus_def updateTask_def update_eq_single_def Let_def request_def emit_def
        world0_def task1_def task2_def)

subsection \<open>Fetching\<close>

text \<open>
  C3. For every project id \<open>p\<close>, every task in the list that \<^verbatim>\<open>fetchTasks(p)\<close> returns has
  \<open>p\<close> as its project, whether the request fails or not; when it does not fail, the list
  holds exactly the stored tasks of that project.
\<close>

theorem fetchTasks_project:
  "(\<forall>t \<in> set (fst (fetchTasks p f w)). task_project_id t = p) \<and>
   mset (fst (fetchTasks p None w)) = mset (filter (\<lambda>t. task_project_id t = p) (tasks w))"
  by (cases f)
     (simp_all add: fetchTasks_def Let_def await_def request_def order_desc_set order_desc_mset
        eq_rows_def)

theorem fetchTasks_project_witness:
  "task2 \<in> set (fst (fetchTasks ''p1'' None world0)) \<and> task_project_id task2 = ''p1'' \<and>
   fst (fetchTasks ''p1'' None world0) = [task2, task1]"
  using fetchTasks_project [of "''p1''" None world0]
  by (simp add: fetchTasks_def Let_def await_def request_def order_desc_def eq_rows_def
        world0_def task1_def task2_def task3_def)

text \<open>
  C10. The list that \<^verbatim>\<open>fetchProjects\<close> returns is ordered by \<^verbatim>\<open>created_at\<close>, latest first,
  and when the request does not fail it holds exactly the projects the caller can see.
\<close>

theorem fetchProjects_order:
  "sorted_wrt (\<lambda>a b. project_created_at b \<le> project_created_at a) (fst (fetchProjects f w)) \<and>
   mset (fst (fetchProjects None w)) = mset (projects w)"
  by (cases f)
     (simp_all add: fetchProjects_def Let_def await_def request_def order_desc_sorted
        order_desc_mset)

theorem fetchProjects_order_witness:
  "fst (fetchProjects None world0) = [project2, project1] \<and>
   project_created_at project1 \<le> project_created_at project2"
  using fetchProjects_order [of None world0]
  by (simp add: fetchProjects_def Let_def await_def request_def order_desc_def
        world0_def project1_def project2_def)

subsection \<open>The board\<close>

text \<open>
  C5. With an empty search term, the priority filter \<open>[high]\<close>, which is also what
  checking high in the empty filter gives, yields exactly the tasks whose priority is
  high, in their order; a priority filter holding low, medium and high (in any order)
  yields the same tasks as the empty priority filter, which are all tasks.
\<close>

theorem priority_filter:
  "filteredTasks [] \<lparr>priority = [''high''], tags = tg\<rparr> ts
     = filter (\<lambda>t. task_priority t = High) ts \<and>
   filteredTasks [] (onCheckedChange ''high'' True \<lparr>priority = [], tags = tg\<rparr>) ts
     = filter (\<lambda>t. task_priority t = High) ts \<and>
   (set ps = {''low'', ''medium'', ''high''} \<longrightarrow>
      filteredTasks [] \<lparr>priority = ps, tags = tg\<rparr> ts
        = filteredTasks [] \<lparr>priority = [], tags = tg\<rparr> ts) \<and>
   filteredTasks [] \<lparr>priority = [], tags = tg\<rparr> ts = ts"
proof (intro conjI impI)
  show "filteredTasks [] \<lparr>priority = [''high''], tags = tg\<rparr> ts
          = filter (\<lambda>t. task_priority t = High) ts"
    by (simp add: filteredTasks_def matchesSearch_empty matchesPriority_def priority_text_high)
  show "filteredTasks [] (onCheckedChange ''high'' True \<lparr>priority = [], tags = tg\<rparr>) ts
          = filter (\<lambda>t. task_priority t = High) ts"
    by (simp add: filteredTasks_def matchesSearch_empty matchesPriority_def priority_text_high
          onCheckedChange_def)
  show none: "filteredTasks [] \<lparr>priority = [], tags = tg\<rparr> ts = ts"
    by (simp add: filteredTasks_def matchesSearch_empty matchesPriority_def)
  assume full: "set ps = {''low'', ''medium'', ''high''}"
  have "matchesPriority \<lparr>priority = ps, tags = tg\<rparr> t" for t
    unfolding matchesPriority_def using priority_text_range [of "task_priority t"] full
    by simp
  then have "filteredTasks [] \<lparr>priority = ps, tags = tg\<rparr> ts = ts"
    by (simp add: filteredTasks_def matchesSearch_empty)
  with none show "filteredTasks [] \<lparr>priority = ps, tags = tg\<rparr> ts
                    = filteredTasks [] \<lparr>priority = [], tags = tg\<rparr> ts"
    by simp
qed

theorem priority_filter_witness:
  "set allPriorities = {''low'', ''medium'', ''high''} \<and>
   filteredTasks [] \<lparr>priority = allPriorities, tags = []\<rparr> [task1, task2, task3]
     = filteredTasks [] \<lparr>priority = [], tags = []\<rparr> [task1, task2, task3] \<and>
   filteredTasks [] \<lparr>priority = [''high''], tags = []\<rparr> [task1, task2, task3] = [task1]"
proof -
  have h: "set allPriorities = {''low'', ''medium'', ''high''}"
    by (simp add: allPriorities_def)
  have "task_priority task1 = High" "task_priority task2 \<noteq> High" "task_priority task3 \<noteq> High"
    by (simp_all add: task1_def task2_def task3_def)
  with h priority_filter [of "[]" "[task1, task2, task3]" allPriorities] show ?thesis
    by simp
qed

text \<open>
  C8. Every filtered task is among the cards of a column exactly when the column's status
  is the task's, so it is in exactly one of the four columns; the count shown for each
  status is the number of cards of that column; the four counts add up to the number of
  filtered tasks; and the cards of all columns together are the filtered tasks.
\<close>

theorem columns_partition:
  "(\<forall>t \<in> set (filteredTasks s fs ts). \<forall>st.
      t \<in> set (column_cards st (filteredTasks s fs ts)) \<longleftrightarrow> st = task_status t) \<and>
   (\<forall>t \<in> set (filteredTasks s fs ts).
      \<exists>!c. c \<in> set columns \<and> t \<in> set (column_cards (snd c) (filteredTasks s fs ts))) \<and>
   (\<forall>st. columnCounts (filteredTasks s fs ts) st
          = length (column_cards st (filteredTasks s fs ts))) \<and>
   columnCounts (filteredTasks s fs ts) Todo + columnCounts (filteredTasks s fs ts) InProgress +
     columnCounts (filteredTasks s fs ts) Review + columnCounts (filteredTasks s fs ts) Completed
     = length (filteredTasks s fs ts) \<and>
   mset (concat (map (\<lambda>(st, n, cards). cards) (board s fs ts))) = mset (filteredTasks s fs ts)"
proof (intro conjI ballI allI)
  fix t st assume "t \<in> set (filteredTasks s fs ts)"
  then show "t \<in> set (column_cards st (filteredTasks s fs ts)) \<longleftrightarrow> st = task_status t"
    by (rule in_column_cards)
next
  fix t assume t: "t \<in> set (filteredTasks s fs ts)"
  obtain title where c: "(title, task_status t) \<in> set columns"
    using status_in_columns by blast
  show "\<exists>!c. c \<in> set columns \<and> t \<in> set (column_cards (snd c) (filteredTasks s fs ts))"
  proof (rule ex1I [of _ "(title, task_status t)"])
    show "(title, task_status t) \<in> set columns \<and>
          t \<in> set (column_cards (snd (title, task_status t)) (filteredTasks s fs ts))"
      using c t by (simp add: in_column_cards)
  next
    fix c'
    assume c': "c' \<in> set columns \<and> t \<in> set (column_cards (snd c') (filteredTasks s fs ts))"
    then have "snd c' = task_status t" using t by (simp add: in_column_cards)
    moreover have "inj_on snd (set columns)"
      using columns_distinct by (simp add: distinct_map)
    ultimately show "c' = (title, task_status t)"
      using c c' inj_onD [of snd "set columns" c' "(title, task_status t)"] by simp
  qed
next
  fix st
  show "columnCounts (filteredTasks s fs ts) st = length (column_cards st (filteredTasks s fs ts))"
    by (rule columnCounts_cards)
next
  show "columnCounts (filteredTasks s fs ts) Todo + columnCounts (filteredTasks s fs ts) InProgress +
     columnCounts (filteredTasks s fs ts) Review + columnCounts (filteredTasks s fs ts) Completed
     = length (filteredTasks s fs ts)"
    using count_by_status [of "filteredTasks s fs ts"] by simp
next
  show "mset (concat (map (\<lambda>(st, n, cards). cards) (board s fs ts))) = mset (filteredTasks s fs ts)"
    using cards_by_status [of "filteredTasks s fs ts"]
    by (simp add: board_def columns_def Let_def add.assoc)
qed

theorem columns_partition_witness:
  "task2 \<in> set (filteredTasks [] \<lparr>priority = [], tags = []\<rparr> [task1, task2, task3]) \<and>
   task2 \<in> set (column_cards Review (filteredTasks [] \<lparr>priority = [], tags = []\<rparr> [task1, task2, task3])) \<and>
   task2 \<notin> set (column_cards Todo (filteredTasks [] \<lparr>priority = [], tags = []\<rparr> [task1, task2, task3])) \<and>
   map (columnCounts (filteredTasks [] \<lparr>priority = [], tags = []\<rparr> [task1, task2, task3]))
     [Todo, InProgress, Review, Completed] = [1, 0, 1, 1]"
  using columns_partition [of "[]" "\<lparr>priority = [], tags = []\<rparr>" "[task1, task2, task3]"]
  by (simp add: filteredTasks_def matchesSearch_def matchesPriority_def column_cards_def
        task1_def task2_def task3_def)

subsection \<open>The realtime handler\<close>

text \<open>
  C7. On an UPDATE notification with row \<open>new\<close>, the list keeps its length and at every
  position holds \<open>new\<close> where the entry's id was that of \<open>new\<close>, and the entry itself
  otherwise. On a DELETE notification with old id \<open>t\<close>, the result is the previous list
  without the entries whose id is \<open>t\<close>: it is a subsequence of the previous list, none of
  its entries has id \<open>t\<close>, and what is missing are the entries with id \<open>t\<close>.
\<close>

theorem realtime_update_delete:
  "length (on_postgres_changes (UPDATE new) prev) = length prev \<and>
   (\<forall>k < length prev.
      on_postgres_changes (UPDATE new) prev ! k =
        (if task_id (prev ! k) = task_id new then new else prev ! k)) \<and>
   on_postgres_changes (DELETE t) prev = filter (\<lambda>x. task_id x \<noteq> t) prev \<and>
   subseq (on_postgres_changes (DELETE t) prev) prev \<and>
   (\<forall>x \<in> set (on_postgres_changes (DELETE t) prev). task_id x \<noteq> t) \<and>
   mset prev = mset (on_postgres_changes (DELETE t) prev)
                 + mset (filter (\<lambda>x. task_id x = t) prev)"
  by (simp add: on_postgres_changes_def)

theorem realtime_update_delete_witness:
  "(1::nat) < length [task1, task2, task3] \<and>
   on_postgres_changes (UPDATE (task2\<lparr>task_status := Completed\<rparr>)) [task1, task2, task3] ! 1
     = task2\<lparr>task_status := Completed\<rparr> \<and>
   on_postgres_changes (UPDATE (task2\<lparr>task_status := Completed\<rparr>)) [task1, task2, task3] ! 0 = task1 \<and>
   on_postgres_changes (DELETE ''t1'') [task1, task2, task3] = [task2, task3]"
  using realtime_update_delete [of "task2\<lparr>task_status := Completed\<rparr>" "[task1, task2, task3]" "''t1''"]
  by (simp add: on_postgres_changes_def task1_def task2_def task3_def)

subsection \<open>Failures in the service layer\<close>

lemma str_includes_refl: "str_includes m m"
  by (cases m) simp_all

lemma toasts_error_emit:
  "events w1 = events w \<Longrightarrow> str_includes text m
   \<Longrightarrow> toasts_error m w (emit (ToastError text) w1)"
  by (simp add: toasts_error_def emit_def)

lemma events_request: "events (request c w) = events w"
  by (simp add: request_def)

lemma fetchProjects_fails: "reports m w (fetchProjects (Some m) w) []"
  by (simp add: reports_def fetchProjects_def Let_def await_def toasts_error_emit
        str_includes_refl events_request)

lemma createProject_fails: "reports m w (createProject inp issued (Some m) w) None"
  by (simp add: reports_def createProject_def Let_def insert_row_def toasts_error_emit
        str_includes_refl events_request)

lemma updateProject_fails:
  "fst (update_eq_single f (patch_project u) project_id i (projects w)) = Inl m
   \<Longrightarrow> reports m w (updateProject i u f w) None"
  by (auto simp: reports_def updateProject_def Let_def request_def toasts_error_emit
        str_includes_refl split: prod.splits sum.splits)

lemma deleteProject_fails:
  "reports m w (deleteProject i (Some m) pf w) False"
  "reports m w (deleteProject i None (Some m) w) False"
  by (simp_all add: reports_def deleteProject_def Let_def delete_eq_def toasts_error_emit
        str_includes_refl events_request)

lemma fetchTasks_fails: "reports m w (fetchTasks p (Some m) w) []"
  by (simp add: reports_def fetchTasks_def Let_def await_def toasts_error_emit
        str_includes_refl events_request)

lemma createTask_fails: "reports m w (createTask inp issued (Some m) w) None"
  by (simp add: reports_def createTask_def Let_def insert_row_def toasts_error_emit
        str_includes_refl events_request)

lemma updateTask_fails:
  "fst (update_eq_single f (patch_task u) task_id i (tasks w)) = Inl m
   \<Longrightarrow> reports m w (updateTask i u f w) None"
  by (auto simp: reports_def updateTask_def Let_def request_def toasts_error_emit
        str_includes_refl split: prod.splits sum.splits)

lemma deleteTask_fails: "reports m w (deleteTask i (Some m) w) False"
  by (simp add: reports_def deleteTask_def Let_def delete_eq_def toasts_error_emit
        str_includes_refl events_request)

lemma addTeamMember_fails: "reports m w (addTeamMember inp issued (Some m) w) None"
  by (simp add: reports_def addTeamMember_def Let_def insert_row_def toasts_error_emit
        str_includes_refl events_request)

lemma outside_fail:
  "reports m w (fetchTeams (Inl m) w) []"
  "reports m w (createTeam (Inl m) w) None"
  "reports m w (updateUserProfile (Inl m) w) None"
  "reports m w (fetchTags (Inl m) w) []"
  "reports m w (createTag (Inl m) w) None"
  "reports m w (addTagToTask (Inl m) w) None"
  "reports m w (removeTagFromTask (Inl m) w) False"
  "reports m w (fetchComments (Inl m) w) []"
  "reports m w (createComment (Inl m) w) None"
  "reports m w (addProjectMember (Inl m) w) False"
  "reports m w (fetchProjectMembers (Inl m) w) []"
  by (simp_all add: reports_def fetchTeams_def createTeam_def updateUserProfile_def fetchTags_def
        createTag_def addTagToTask_def removeTagFromTask_def fetchComments_def createComment_def
        addProjectMember_def fetchProjectMembers_def Let_def toasts_error_emit
        str_includes_refl events_request)

lemma fetchUserProfile_fails:
  "fetchUserProfile (Inl m) w =
     (None, emit (ConsoleError (''Error fetching user profile: '' @ m))
              (request (Other ''user_profiles'') w))"
  by (simp add: fetchUserProfile_def Let_def)

text \<open>
  C4, as amended. When the backend's reply to a request is an error with message \<open>m\<close>,
  every function of the service layer but \<^verbatim>\<open>fetchUserProfile\<close> shows one error toast
  whose text includes \<open>m\<close> and returns its sentinel: the empty list, null or false. For
  \<^verbatim>\<open>deleteProject\<close> this holds for either of its two requests. \<^verbatim>\<open>fetchUserProfile\<close>
  returns null as well, but writes the message to the console and shows no toast. No
  function passes the error on: each returns a value.
\<close>

theorem service_failures:
  "reports m w (fetchProjects (Some m) w) [] \<and>
   reports m w (createProject pinp pissued (Some m) w) None \<and>
   (fst (update_eq_single f (patch_project pu) project_id i (projects w)) = Inl m
      \<longrightarrow> reports m w (updateProject i pu f w) None) \<and>
   reports m w (deleteProject i (Some m) f w) False \<and>
   reports m w (deleteProject i None (Some m) w) False \<and>
   reports m w (fetchTasks i (Some m) w) [] \<and>
   reports m w (createTask tinp tissued (Some m) w) None \<and>
   (fst (update_eq_single f (patch_task tu) task_id i (tasks w)) = Inl m
      \<longrightarrow> reports m w (updateTask i tu f w) None) \<and>
   (fst (update_eq_single f (patch_task (no_updates\<lparr>set_status := Some st\<rparr>)) task_id i (tasks w))
        = Inl m
      \<longrightarrow> reports m w (updateTaskStatus i st f w) None) \<and>
   reports m w (deleteTask i (Some m) w) False \<and>
   reports m w (fetchTeams (Inl m) w) ([] :: 'team list) \<and>
   reports m w (createTeam (Inl m) w) (None :: 'team option) \<and>
   reports m w (addTeamMember minp missued (Some m) w) None \<and>
   reports m w (updateUserProfile (Inl m) w) (None :: 'profile option) \<and>
   reports m w (fetchTags (Inl m) w) ([] :: 'tag list) \<and>
   reports m w (createTag (Inl m) w) (None :: 'tag option) \<and>
   reports m w (addTagToTask (Inl m) w) (None :: 'tasktag option) \<and>
   reports m w (removeTagFromTask (Inl m) w) False \<and>
   reports m w (fetchComments (Inl m) w) ([] :: 'comment list) \<and>
   reports m w (createComment (Inl m) w) (None :: 'comment option) \<and>
   reports m w (addProjectMember (Inl m) w) False \<and>
   reports m w (fetchProjectMembers (Inl m) w) ([] :: 'member list) \<and>
   fetchUserProfile (Inl m) w =
     ((None :: 'profile option),
      emit (ConsoleError (''Error fetching user profile: '' @ m))
        (request (Other ''user_profiles'') w))"
  using updateProject_fails [of f pu i w m] updateTask_fails [of f tu i w m]
        updateTask_fails [of f "no_updates\<lparr>set_status := Some st\<rparr>" i w m]
  by (simp add: fetchProjects_fails createProject_fails deleteProject_fails fetchTasks_fails
        createTask_fails deleteTask_fails addTeamMember_fails outside_fail fetchUserProfile_fails
        updateTaskStatus_def)

text \<open>
  At a concrete input: an update of a task that does not exist is answered with the error
  of \<^verbatim>\<open>single()\<close>, and a fetch that times out with the timeout.
\<close>

theorem service_failures_witness:
  "fst (update_eq_single None (patch_task no_updates) task_id ''t9'' (tasks world0))
     = Inl single_error \<and>
   fst (updateTask ''t9'' no_updates None world0) = None \<and>
   events (snd (updateTask ''t9'' no_updates None world0))
     = [ToastError (''Error updating task: '' @ single_error)] \<and>
   events (snd (fetchTasks ''p1'' (Some ''timeout'') world0))
     = [ToastError ''Error fetching tasks: timeout'']"
  using service_failures [of single_error world0 _ _ None _ "''t9''" _ _ no_updates]
  by (simp add: updateTask_def fetchTasks_def await_def update_eq_single_def Let_def request_def
        emit_def world0_def task1_def task2_def task3_def)

text \<open>
  The claim as stated fails for \<^verbatim>\<open>fetchUserProfile\<close>: on a failing request the only thing
  it shows is a line on the console; no toast appears.
\<close>

theorem service_failures_counterexample:
  "fst (fetchUserProfile (Inl ''timeout'' :: string reply) world0) = None \<and>
   events (snd (fetchUserProfile (Inl ''timeout'' :: string reply) world0))
     = [ConsoleError ''Error fetching user profile: timeout''] \<and>
   toasts_error ''timeout'' world0 (snd (fetchUserProfile (Inl ''timeout'' :: string reply) world0))
     = False"
  by (simp add: fetchUserProfile_def Let_def request_def emit_def toasts_error_def world0_def)

subsection \<open>Invitations\<close>

lemma list_all_update:
  "list_all Q rows \<Longrightarrow> (\<And>r. Q (u r))
   \<Longrightarrow> list_all Q (map (\<lambda>r. if col r = v then u r else r) rows)"
  by (induction rows) simp_all

lemma accepted_patch_ok:
  "accepted_has_timestamp
     (patch_invitation \<lparr>put_status = Some ''accepted'', put_accepted_at = Some (Some now)\<rparr> r)"
  by (simp add: accepted_has_timestamp_def patch_invitation_def put_def)

lemma declined_patch_ok:
  "accepted_has_timestamp
     (patch_invitation \<lparr>put_status = Some ''declined'', put_accepted_at = None\<rparr> r)"
  by (simp add: accepted_has_timestamp_def patch_invitation_def put_def)

lemma new_invitation_ok: "accepted_has_timestamp (new_invitation issued inp)"
  by (simp add: accepted_has_timestamp_def new_invitation_def)

lemma handleAccept_rows:
  "list_all accepted_has_timestamp (team_invitations w)
   \<Longrightarrow> list_all accepted_has_timestamp
         (team_invitations (handleAccept usr invitation now issued mf uf w))"
  by (cases usr; cases invitation; cases mf; cases uf)
     (simp_all add: handleAccept_def Let_def insert_row_def update_eq_def
        accept_failed_def emit_def request_def list_all_update accepted_patch_ok)

lemma handleAccept_calls:
  "list_all accepting_sets_timestamp (calls w)
   \<Longrightarrow> list_all accepting_sets_timestamp (calls (handleAccept usr invitation now issued mf uf w))"
  by (cases usr; cases invitation; cases mf; cases uf)
     (simp_all add: handleAccept_def Let_def insert_row_def update_eq_def
        accept_failed_def emit_def request_def)

lemma handleDecline_rows:
  "list_all accepted_has_timestamp (team_invitations w)
   \<Longrightarrow> list_all accepted_has_timestamp (team_invitations (handleDecline invitation f w))"
  by (cases invitation; cases f)
     (simp_all add: handleDecline_def Let_def update_eq_def emit_def request_def
        list_all_update declined_patch_ok)

lemma handleDecline_calls:
  "list_all accepting_sets_timestamp (calls w)
   \<Longrightarrow> list_all accepting_sets_timestamp (calls (handleDecline invitation f w))"
  by (cases invitation; cases f)
     (simp_all add: handleDecline_def Let_def update_eq_def emit_def request_def)

lemma handleInvite_rows:
  "list_all accepted_has_timestamp (team_invitations w)
   \<Longrightarrow> list_all accepted_has_timestamp (team_invitations (handleInvite usr team vals issued f w))"
  by (cases usr; cases team; cases f)
     (simp_all add: handleInvite_def Let_def insert_row_def emit_def request_def
        new_invitation_ok)

lemma handleInvite_calls:
  "list_all accepting_sets_timestamp (calls w)
   \<Longrightarrow> list_all accepting_sets_timestamp (calls (handleInvite usr team vals issued f w))"
  by (cases usr; cases team; cases f)
     (simp_all add: handleInvite_def Let_def insert_row_def emit_def request_def)

lemma getInvitationLink_rows:
  "list_all accepted_has_timestamp (team_invitations w)
   \<Longrightarrow> list_all accepted_has_timestamp
         (team_invitations (getInvitationLink usr teamId issued ff insf origin ok w))"
  by (cases ff; cases insf; cases ok)
     (simp_all add: getInvitationLink_def Let_def await_def insert_row_def emit_def
        request_def link_failed_def copyInvitationLink_def new_invitation_ok split: list.splits)

lemma getInvitationLink_calls:
  "list_all accepting_sets_timestamp (calls w)
   \<Longrightarrow> list_all accepting_sets_timestamp
         (calls (getInvitationLink usr teamId issued ff insf origin ok w))"
  by (cases ff; cases insf; cases ok)
     (simp_all add: getInvitationLink_def Let_def await_def insert_row_def emit_def
        request_def link_failed_def copyInvitationLink_def split: list.splits)

lemma perform_rows:
  "list_all accepted_has_timestamp (team_invitations w)
   \<Longrightarrow> list_all accepted_has_timestamp (team_invitations (perform a w))"
  by (cases a)
     (simp_all add: handleAccept_rows handleDecline_rows handleInvite_rows getInvitationLink_rows)

lemma perform_calls:
  "list_all accepting_sets_timestamp (calls w)
   \<Longrightarrow> list_all accepting_sets_timestamp (calls (perform a w))"
  by (cases a)
     (simp_all add: handleAccept_calls handleDecline_calls handleInvite_calls
        getInvitationLink_calls)

lemma run_rows:
  "list_all accepted_has_timestamp (team_invitations w)
   \<Longrightarrow> list_all accepted_has_timestamp (team_invitations (run acts w))"
  unfolding run_def by (induction acts arbitrary: w) (simp_all add: perform_rows)

lemma run_calls:
  "list_all accepting_sets_timestamp (calls w)
   \<Longrightarrow> list_all accepting_sets_timestamp (calls (run acts w))"
  unfolding run_def by (induction acts arbitrary: w) (simp_all add: perform_calls)

text \<open>
  C6. Through any sequence of runs of the handlers that write invitations (accept,
  decline, invite, get a link), with any arguments and any failures of the backend: every
  request that sets an invitation's status to accepted sets its acceptance timestamp to a
  value in the same update, and if every stored invitation that is accepted has an
  acceptance timestamp before the sequence, the same holds after it.
\<close>

theorem accepted_invitations_have_timestamp:
  "(list_all accepting_sets_timestamp (calls w) \<longrightarrow>
      list_all accepting_sets_timestamp (calls (run acts w))) \<and>
   (list_all accepted_has_timestamp (team_invitations w) \<longrightarrow>
      list_all accepted_has_timestamp (team_invitations (run acts w)))"
  using run_rows [of w acts] run_calls [of w acts]
  by simp

theorem accepted_invitations_have_timestamp_witness:
  "list_all accepting_sets_timestamp (calls world0) \<and>
   list_all accepted_has_timestamp (team_invitations world0) \<and>
   calls (run [Accept (Some ann) (Some invitation1) ''2025-03-01T10:00:00.000Z'' (''m1'', 40)
                 None None,
               Decline (Some invitation1) None] world0)
     = [TeamMembersInsert \<lparr>new_member_team_id = ''tm1'', new_member_user_id = ''u1'',
                            new_member_role = ''member''\<rparr>,
        InvitationsUpdateEqId \<lparr>put_status = Some ''accepted'',
                                put_accepted_at = Some (Some ''2025-03-01T10:00:00.000Z'')\<rparr> ''i1'',
        InvitationsUpdateEqId \<lparr>put_status = Some ''declined'', put_accepted_at = None\<rparr> ''i1''] \<and>
   map (\<lambda>i. (invitation_status i, invitation_accepted_at i))
     (team_invitations
        (run [Accept (Some ann) (Some invitation1) ''2025-03-01T10:00:00.000Z'' (''m1'', 40)
                None None] world0))
     = [(''accepted'', Some ''2025-03-01T10:00:00.000Z'')]"
  using accepted_invitations_have_timestamp [of world0
     "[Accept (Some ann) (Some invitation1) ''2025-03-01T10:00:00.000Z'' (''m1'', 40) None None]"]
  by (simp add: run_def handleAccept_def handleDecline_def Let_def insert_row_def update_eq_def
        emit_def request_def patch_invitation_def put_def accepted_has_timestamp_def
        world0_def invitation1_def ann_def new_team_member_def)

text \<open>
  C9. When the signed-in user's email is not the invitation's, \<^verbatim>\<open>handleAccept\<close> issues no
  request, neither the insert into \<^verbatim>\<open>team_members\<close> nor the update of the invitation: the
  memberships and the invitations are as before, and the one thing shown is the error
  toast about the different email address.
\<close>

theorem handleAccept_email_mismatch:
  "user_email u \<noteq> Some (invitation_email i) \<longrightarrow>
   handleAccept (Some u) (Some i) now issued memberFault updateFault w
     = (emit (ToastError ''This invitation was sent to a different email address'') w)
         \<lparr>isAccepting := False\<rparr> \<and>
   calls (handleAccept (Some u) (Some i) now issued memberFault updateFault w) = calls w \<and>
   team_members (handleAccept (Some u) (Some i) now issued memberFault updateFault w)
     = team_members w \<and>
   team_invitations (handleAccept (Some u) (Some i) now issued memberFault updateFault w)
     = team_invitations w \<and>
   events (handleAccept (Some u) (Some i) now issued memberFault updateFault w)
     = events w @ [ToastError ''This invitation was sent to a different email address'']"
  by (simp add: handleAccept_def Let_def emit_def)

text \<open>
  At a concrete input: the invitation was sent to Ann; Bob's attempt writes nothing, and
  Ann's, for comparison, adds her membership.
\<close>

theorem handleAccept_email_mismatch_witness:
  "user_email bob \<noteq> Some (invitation_email invitation1) \<and>
   calls (handleAccept (Some bob) (Some invitation1) ''2025-03-01T10:00:00.000Z'' (''m1'', 40)
            None None world0) = [] \<and>
   team_members (handleAccept (Some bob) (Some invitation1) ''2025-03-01T10:00:00.000Z''
                   (''m1'', 40) None None world0) = [] \<and>
   team_invitations (handleAccept (Some bob) (Some invitation1) ''2025-03-01T10:00:00.000Z''
                       (''m1'', 40) None None world0) = [invitation1] \<and>
   team_members (handleAccept (Some ann) (Some invitation1) ''2025-03-01T10:00:00.000Z''
                   (''m1'', 40) None None world0)
     = [\<lparr>member_id = ''m1'', member_team_id = ''tm1'', member_user_id = ''u1'',
         member_role = ''member'', member_created_at = 40\<rparr>]"
  using handleAccept_email_mismatch [of bob invitation1 "''2025-03-01T10:00:00.000Z''"
          "(''m1'', 40)" None None world0]
  by (simp add: handleAccept_def Let_def insert_row_def update_eq_def
        emit_def request_def world0_def invitation1_def ann_def bob_def new_team_member_def)

end
